theory Spec2Isabelle
  imports Main "HOL-Library.AList"
begin

section \<open>The Socket.IO signaling server (src/socketio\_server.js)\<close>

text \<open>
  The first, room-aware version of the file is embedded. Handlers become functions from
  the server state to a list of observable effects and the new state. What the handlers
  cannot compute is an input of the event: the result of the authenticator callback
  \<open>server.onauthentication\<close>, whether the client sent an acknowledgement callback, and the
  clock string \<open>time_bj\<close>. Console output is left out.
\<close>

subsection \<open>JavaScript values\<close>

datatype jsval =
    JUndefined
  | JNull
  | JNumber int
  | JString string
  | JArray "jsval list"
  | JObject "(string \<times> jsval) list"

text \<open>Truthiness, as \<open>if (x)\<close>, \<open>!x\<close> and \<open>x || y\<close> read a value.\<close>

fun truthy :: "jsval \<Rightarrow> bool" where
  "truthy JUndefined = False"
| "truthy JNull = False"
| "truthy (JNumber n) = (n \<noteq> 0)"
| "truthy (JString s) = (s \<noteq> [])"
| "truthy (JArray xs) = True"
| "truthy (JObject fs) = True"

text \<open>
  A field that holds a string, \<open>null\<close> or \<open>undefined\<close> (\<open>socket.cid\<close>, \<open>socket.room\<close>,
  \<open>result.room\<close>) is a \<open>string option\<close>; \<open>None\<close> and the empty string are falsy.
\<close>

fun truthy_str :: "string option \<Rightarrow> bool" where
  "truthy_str None = False"
| "truthy_str (Some s) = (s \<noteq> [])"

text \<open>An object is its list of fields in insertion order; reading a missing field gives
  \<open>undefined\<close>.\<close>

type_synonym fields = "(string \<times> jsval) list"

definition get_field :: "fields \<Rightarrow> string \<Rightarrow> jsval" where
  "get_field fs k = (case map_of fs k of None \<Rightarrow> JUndefined | Some v \<Rightarrow> v)"

text \<open>A \<open>Set\<close> of cids, in insertion order: \<open>add\<close> appends a new element, \<open>delete\<close>
  removes it.\<close>

definition set_add :: "'a \<Rightarrow> 'a list \<Rightarrow> 'a list" where
  "set_add x xs = (if x \<in> set xs then xs else xs @ [x])"

definition set_delete :: "'a \<Rightarrow> 'a list \<Rightarrow> 'a list" where
  "set_delete x xs = removeAll x xs"

subsection \<open>Connections, effects and the server state\<close>

type_synonym sid = nat

text \<open>The two listeners of \<open>startServer\<close>: \<open>plainServer\<close> and \<open>secureServer\<close>.\<close>

datatype listener = Plain | Secure

text \<open>
  A socket: the two fields the handlers write (\<open>socket.cid\<close>, \<open>socket.room\<close>) and the
  transport's own view of it: the Socket.IO rooms it joined, the server it belongs to
  (\<open>socket.server\<close>) and whether it is still connected.
\<close>

record socket =
  sock_cid :: "string option"
  sock_room :: "string option"
  sock_rooms :: "string list"
  sock_server :: listener
  sock_connected :: bool

text \<open>
  What a handler does to the outside: \<open>Emit i ev msg\<close> is \<open>emit(ev, msg)\<close> on connection
  \<open>i\<close>, \<open>Ack i v\<close> is \<open>ackCallback(v)\<close> of the event received on \<open>i\<close> (\<open>JUndefined\<close> for a
  call without argument), \<open>Close i\<close> is \<open>disconnect()\<close> on connection \<open>i\<close>, and
  \<open>OnDisconnect c\<close> is the call \<open>server.ondisconnect(c)\<close> of the external observer.
  \<open>Uncaught e\<close> is an exception of name \<open>e\<close> that nothing catches: a handler that throws
  stops there, with the effects and the state it had reached.
\<close>

datatype effect =
    Emit sid string jsval
  | Ack sid jsval
  | Close sid
  | OnDisconnect string
  | Uncaught string

record js_error =
  err_message :: string
  err_code :: jsval

text \<open>
  \<open>connectionMap\<close> is a \<open>Map\<close> from cid to socket and \<open>roomMembers\<close> a \<open>Map\<close> from room to
  the \<open>Set\<close> of its cids; both are association lists with the operations of
  \<open>AList\<close>: \<open>update\<close> replaces the value of a key in place or appends a new entry, as
  \<open>Map.set\<close> does, and \<open>delete\<close> removes a key. The sockets live in a store indexed by
  connection handle; \<open>next_sid\<close> is the handle the next connection gets.
\<close>

record state =
  connectionMap :: "(string \<times> sid) list"
  roomMembers :: "(string \<times> string list) list"
  sockets :: "sid \<Rightarrow> socket"
  next_sid :: nat

definition forwardEventName :: string where
  "forwardEventName = ''owt-message''"

definition new_socket :: "listener \<Rightarrow> string option \<Rightarrow> socket" where
  "new_socket l pre =
     \<lparr>sock_cid = pre, sock_room = None, sock_rooms = [], sock_server = l,
      sock_connected = True\<rparr>"

definition init :: state where
  "init = \<lparr>connectionMap = [], roomMembers = [],
            sockets = (\<lambda>i. new_socket Plain None), next_sid = 0\<rparr>"

subsection \<open>The transport\<close>

text \<open>
  Socket.IO as the handlers use it. A closed socket has left all its rooms and is not
  connected; \<open>socket.join(room)\<close> adds a room; \<open>socket.server.sockets.in(room).emit\<close>
  reaches the connected sockets of the same server that joined the room, and
  \<open>socket.to(room).emit\<close> the same sockets but the sender.
\<close>

definition socket_close :: "sid \<Rightarrow> state \<Rightarrow> state" where
  "socket_close i s =
     s\<lparr>sockets := (sockets s)(i := (sockets s i)\<lparr>sock_rooms := [], sock_connected := False\<rparr>)\<rparr>"

definition socket_join :: "sid \<Rightarrow> string \<Rightarrow> state \<Rightarrow> state" where
  "socket_join i r s =
     s\<lparr>sockets := (sockets s)(i := (sockets s i)\<lparr>sock_rooms := set_add r (sock_rooms (sockets s i))\<rparr>)\<rparr>"

definition in_room :: "state \<Rightarrow> listener \<Rightarrow> string \<Rightarrow> sid list" where
  "in_room s l r =
     filter (\<lambda>i. sock_connected (sockets s i) \<and> sock_server (sockets s i) = l
                 \<and> r \<in> set (sock_rooms (sockets s i)))
            [0..<next_sid s]"

definition emit_in :: "state \<Rightarrow> sid \<Rightarrow> string \<Rightarrow> string \<Rightarrow> jsval \<Rightarrow> effect list" where
  "emit_in s i r ev msg = map (\<lambda>j. Emit j ev msg) (in_room s (sock_server (sockets s i)) r)"

definition emit_to :: "state \<Rightarrow> sid \<Rightarrow> string \<Rightarrow> string \<Rightarrow> jsval \<Rightarrow> effect list" where
  "emit_to s i r ev msg =
     map (\<lambda>j. Emit j ev msg) (filter (\<lambda>j. j \<noteq> i) (in_room s (sock_server (sockets s i)) r))"

subsection \<open>The disconnect handler\<close>

definition leftMsg :: "string \<Rightarrow> string list \<Rightarrow> string \<Rightarrow> jsval" where
  "leftMsg c members time_bj =
     JObject [(''type'', JString ''user-left''), (''cid'', JString c),
              (''users'', JArray (map JString members)), (''timestamp'', JString time_bj)]"

definition on_disconnect :: "state \<Rightarrow> sid \<Rightarrow> string \<Rightarrow> string \<Rightarrow> effect list \<times> state" where
  "on_disconnect s i reason time_bj =
     (case sock_cid (sockets s i) of
        None \<Rightarrow> ([], s)
      | Some c \<Rightarrow>
          if truthy_str (sock_cid (sockets s i)) then
            let s1 = s\<lparr>connectionMap := AList.delete c (connectionMap s)\<rparr>
            in case sock_room (sockets s i) of
                 None \<Rightarrow> ([OnDisconnect c], s1)
               | Some r \<Rightarrow>
                   (case (if truthy_str (sock_room (sockets s i)) then map_of (roomMembers s1) r else None) of
                      None \<Rightarrow> ([OnDisconnect c], s1)
                    | Some ms \<Rightarrow>
                        let members = set_delete c ms;
                            s2 = s1\<lparr>roomMembers :=
                                     (if length members = 0 then AList.delete r (roomMembers s1)
                                      else AList.update r members (roomMembers s1))\<rparr>
                        in (emit_to s2 i r ''room-event'' (leftMsg c members time_bj)
                            @ [OnDisconnect c], s2))
          else ([], s))"

text \<open>
  \<open>socket.disconnect()\<close>: on a connected socket Socket.IO closes it and, before the call
  returns, runs the socket's \<open>disconnect\<close> handler with the reason
  \<open>server namespace disconnect\<close>; on a socket that is closed already the call does
  nothing. The handler may read the clock, so the clock string is a parameter of every
  function that may close a socket.
\<close>

definition socket_disconnect :: "state \<Rightarrow> sid \<Rightarrow> string \<Rightarrow> effect list \<times> state" where
  "socket_disconnect s i time_bj =
     (if sock_connected (sockets s i) then
        (let (es, s1) = on_disconnect (socket_close i s) i ''server namespace disconnect'' time_bj
         in (Close i # es, s1))
      else ([Close i], s))"

subsection \<open>disconnectClient and emitChatEvent\<close>

definition disconnectClient :: "state \<Rightarrow> string \<Rightarrow> string \<Rightarrow> effect list \<times> state" where
  "disconnectClient s c time_bj =
     (case map_of (connectionMap s) c of
        None \<Rightarrow> ([], s)
      | Some conn \<Rightarrow>
          let s1 = s\<lparr>connectionMap := AList.delete c (connectionMap s)\<rparr>;
              s2 = s1\<lparr>sockets := (sockets s1)(conn := (sockets s1 conn)\<lparr>sock_cid := None\<rparr>)\<rparr>;
              (es, s3) = socket_disconnect s2 conn time_bj
          in (Emit conn ''server-disconnect'' JUndefined # es, s3))"

text \<open>The keys of \<open>connectionMap\<close> are strings, so only a string finds an entry.\<close>

fun lookup_conn :: "(string \<times> sid) list \<Rightarrow> jsval \<Rightarrow> sid option" where
  "lookup_conn cm (JString c) = map_of cm c"
| "lookup_conn cm v = None"

text \<open>The promise of \<open>emitChatEvent\<close>: \<open>Inr\<close> when it resolves, with the effects it had,
  \<open>Inl\<close> the error it rejects with.\<close>

definition emitChatEvent :: "state \<Rightarrow> jsval \<Rightarrow> string \<Rightarrow> jsval \<Rightarrow> js_error + effect list" where
  "emitChatEvent s targetCid eventName message =
     (case lookup_conn (connectionMap s) targetCid of
        Some conn \<Rightarrow> Inr [Emit conn eventName message]
      | None \<Rightarrow>
          Inl \<lparr>err_message = ''Remote endpoint cannot be reached'', err_code = JString ''2201''\<rparr>)"

definition server_send :: "state \<Rightarrow> jsval \<Rightarrow> jsval \<Rightarrow> js_error + effect list" where
  "server_send s c message = emitChatEvent s c forwardEventName message"

definition server_disconnect :: "state \<Rightarrow> string \<Rightarrow> string \<Rightarrow> effect list \<times> state" where
  "server_disconnect s c time_bj = disconnectClient s c time_bj"

subsection \<open>onConnection\<close>

text \<open>A new socket, with the cid it may already carry.\<close>

definition onConnection ::
  "state \<Rightarrow> listener \<Rightarrow> string option \<Rightarrow> string \<Rightarrow> effect list \<times> state" where
  "onConnection s l pre time_bj =
     (let i = next_sid s;
          s0 = s\<lparr>sockets := (sockets s)(i := new_socket l pre), next_sid := Suc i\<rparr>
      in case pre of
           None \<Rightarrow> ([], s0)
         | Some c \<Rightarrow>
             if truthy_str pre then
               (let (e1, s1) = disconnectClient s0 c time_bj
                in (e1, s1\<lparr>connectionMap := AList.update c i (connectionMap s1)\<rparr>))
             else ([], s0))"

subsection \<open>The authentication handler\<close>

record auth_result =
  res_error :: jsval
  res_cid :: string
  res_room :: "string option"

definition room_or_default :: "string option \<Rightarrow> string" where
  "room_or_default r = (case r of None \<Rightarrow> ''default-room'' | Some x \<Rightarrow> if truthy_str r then x else ''default-room'')"

text \<open>Lines 84 to 87: the room's set is created when missing, then the cid is added.\<close>

definition room_join :: "string \<Rightarrow> string \<Rightarrow> (string \<times> string list) list \<Rightarrow> (string \<times> string list) list" where
  "room_join r c rm =
     (let rm1 = (if map_of rm r = None then AList.update r [] rm else rm)
      in case map_of rm1 r of
           None \<Rightarrow> rm1
         | Some ms \<Rightarrow> AList.update r (set_add c ms) rm1)"

definition room_users :: "(string \<times> string list) list \<Rightarrow> string \<Rightarrow> string list" where
  "room_users rm r = (case map_of rm r of None \<Rightarrow> [] | Some ms \<Rightarrow> ms)"

definition joinMsg :: "string \<Rightarrow> string list \<Rightarrow> string \<Rightarrow> jsval" where
  "joinMsg c userList time_bj =
     JObject [(''type'', JString ''user-joined''), (''cid'', JString c),
              (''users'', JArray (map JString userList)), (''timestamp'', JString time_bj)]"

text \<open>
  \<open>ack\<close> tells whether the client sent an acknowledgement callback with the event. Calling
  a callback that was not sent throws a \<open>TypeError\<close>: on line 68 before the socket is
  closed, on line 119 as the last statement of the handler.
\<close>

definition on_authentication ::
  "state \<Rightarrow> sid \<Rightarrow> auth_result \<Rightarrow> string \<Rightarrow> bool \<Rightarrow> effect list \<times> state" where
  "on_authentication s i result time_bj ack =
     (if truthy (res_error result) then
        (if ack then
           (let (e0, s0) = socket_disconnect s i time_bj
            in (Ack i (JObject [(''error'', res_error result)]) # e0, s0))
         else ([Uncaught ''TypeError''], s))
      else
        let c = res_cid result;
            r = room_or_default (res_room result);
            (e1, s1) = disconnectClient s c time_bj;
            s2 = s1\<lparr>sockets := (sockets s1)(i := (sockets s1 i)\<lparr>sock_cid := Some c, sock_room := Some r\<rparr>)\<rparr>;
            s3 = s2\<lparr>connectionMap := AList.update c i (connectionMap s2)\<rparr>;
            s4 = socket_join i r s3;
            s5 = s4\<lparr>roomMembers := room_join r c (roomMembers s4)\<rparr>;
            allUsers = room_users (roomMembers s5) r;
            userList = filter (\<lambda>u. u \<noteq> c) allUsers
        in (e1
            @ [Emit i ''server-authenticated'' (JObject [(''uid'', JString c)])]
            @ emit_in s5 i r ''room-list'' (JArray (map JString allUsers))
            @ emit_in s5 i r ''room-event'' (joinMsg c userList time_bj)
            @ [if ack then Ack i (JObject [(''uid'', JString c), (''room'', JString r)])
               else Uncaught ''TypeError''],
            s5))"

subsection \<open>The forward handler\<close>

text \<open>Lines 195 to 197: the sender is stamped, the destination read and removed.\<close>

definition stamp_sender :: "string \<Rightarrow> fields \<Rightarrow> jsval \<times> fields" where
  "stamp_sender c data =
     (let data1 = AList.update ''from'' (JString c) data;
          to = get_field data1 ''to'';
          data2 = AList.delete ''to'' data1
      in (to, data2))"

text \<open>
  \<open>server.onmessage\<close> is a callback assigned by the embedding process; the handler takes it
  as the parameter \<open>onmessage\<close>, a function of the state, the destination and the payload
  whose promise resolves with the effects it had or rejects with an error. \<open>ack\<close> tells
  whether the client sent an acknowledgement callback: without one, line 191 throws a
  \<open>TypeError\<close> before the socket is closed, and the calls of lines 200 and 203 throw it
  in the promise's callbacks, after the message was handed on.
\<close>

definition unauthenticated_sender ::
  "state \<Rightarrow> sid \<Rightarrow> bool \<Rightarrow> string \<Rightarrow> effect list \<times> state" where
  "unauthenticated_sender s i ack time_bj =
     (if ack then
        (let (e0, s0) = socket_disconnect s i time_bj
         in (Ack i (JNumber 2120) # e0, s0))
      else ([Uncaught ''TypeError''], s))"

definition on_forward ::
  "(state \<Rightarrow> jsval \<Rightarrow> jsval \<Rightarrow> js_error + effect list) \<Rightarrow> state \<Rightarrow> sid \<Rightarrow> fields
     \<Rightarrow> bool \<Rightarrow> string \<Rightarrow> effect list \<times> state" where
  "on_forward onmessage s i data ack time_bj =
     (case sock_cid (sockets s i) of
        None \<Rightarrow> unauthenticated_sender s i ack time_bj
      | Some c \<Rightarrow>
          if \<not> truthy_str (sock_cid (sockets s i)) then unauthenticated_sender s i ack time_bj
          else
            let (to, data2) = stamp_sender c data
            in case onmessage s to (JObject data2) of
                 Inr es \<Rightarrow> (es @ [if ack then Ack i JUndefined else Uncaught ''TypeError''], s)
               | Inl err \<Rightarrow> ([if ack then Ack i (err_code err) else Uncaught ''TypeError''], s))"

text \<open>
  Modelled from the spec: the function assigned to \<open>server.onmessage\<close> is not part of
  src/. The spec (sections 4.4 and 6) has one delivery path for client-routed and
  server-initiated messages: \<open>send(cid, message)\<close> reuses the path of the router, which
  fails with the unreachable-endpoint error when the destination is not in the directory
  and emits the payload to the destination connection otherwise.
\<close>

definition route_onmessage :: "state \<Rightarrow> jsval \<Rightarrow> jsval \<Rightarrow> js_error + effect list" where
  "route_onmessage s to message = server_send s to message"

subsection \<open>Events and runs\<close>

text \<open>
  What reaches the server, each with the clock string of the moment where a socket may
  be closed: a new connection, the two client events with the flag of the
  acknowledgement callback, the transport's \<open>disconnect\<close> notification with its reason,
  and the calls \<open>server.send\<close> and \<open>server.disconnect\<close> of the embedding process.
\<close>

datatype event =
    Connection listener "string option" string
  | Authentication sid auth_result string bool
  | Disconnect sid string string
  | ForwardMsg sid fields bool string
  | Send jsval jsval
  | ServerDisconnect string string

text \<open>
  One event. A \<open>Disconnect\<close> is the transport's notification (the client went away, a
  timeout): the socket is closed, it may be so already, and the handler runs. The
  promise of \<open>server.send\<close> goes to the caller; its effects are what the run records.
\<close>

definition step ::
  "(state \<Rightarrow> jsval \<Rightarrow> jsval \<Rightarrow> js_error + effect list) \<Rightarrow> state \<Rightarrow> event \<Rightarrow> effect list \<times> state" where
  "step onmessage s ev =
     (case ev of
        Connection l pre time_bj \<Rightarrow> onConnection s l pre time_bj
      | Authentication i result time_bj ack \<Rightarrow> on_authentication s i result time_bj ack
      | Disconnect i reason time_bj \<Rightarrow> on_disconnect (socket_close i s) i reason time_bj
      | ForwardMsg i data ack time_bj \<Rightarrow> on_forward onmessage s i data ack time_bj
      | Send c message \<Rightarrow>
          (case server_send s c message of Inr es \<Rightarrow> (es, s) | Inl err \<Rightarrow> ([], s))
      | ServerDisconnect c time_bj \<Rightarrow> server_disconnect s c time_bj)"

fun run ::
  "(state \<Rightarrow> jsval \<Rightarrow> jsval \<Rightarrow> js_error + effect list) \<Rightarrow> state \<Rightarrow> event list \<Rightarrow> state" where
  "run onmessage s [] = s"
| "run onmessage s (ev # evs) = run onmessage (snd (step onmessage s ev)) evs"

subsection \<open>Scenario states\<close>


definition auth_ok :: "string \<Rightarrow> string \<Rightarrow> auth_result" where
  "auth_ok c r = \<lparr>res_error = JUndefined, res_cid = c, res_room = Some r\<rparr>"


definition alice_online :: state where
  "alice_online =
     run route_onmessage init
       [Connection Plain None ''t0'', Authentication 0 (auth_ok ''alice'' ''r1'') ''t0'' True,
        Connection Plain None ''t0'']"

definition alice_bob_online :: state where
  "alice_bob_online =
     run route_onmessage alice_online [Authentication 1 (auth_ok ''bob'' ''r1'') ''t1'' True]"

text \<open>Alice on the plain listener, and a second connection on the secure one.\<close>

definition alice_plain :: state where
  "alice_plain =
     run route_onmessage init
       [Connection Plain None ''t0'', Authentication 0 (auth_ok ''alice'' ''r1'') ''t0'' True,
        Connection Secure None ''t0'']"

definition alice_kicked :: state where
  "alice_kicked =
     run route_onmessage init
       [Connection Plain None ''t0'', Authentication 0 (auth_ok ''alice'' ''r1'') ''t0'' True,
        ServerDisconnect ''alice'' ''t1'', Disconnect 0 ''io server disconnect'' ''t1'']"

definition hi_to_bob :: fields where
  "hi_to_bob = [(''to'', JString ''bob''), (''from'', JString ''mallory''), (''text'', JString ''hi'')]"

definition hi_to_carol :: fields where
  "hi_to_carol = [(''to'', JString ''carol''), (''text'', JString ''hi'')]"

definition alice_twice :: "event list" where
  "alice_twice =
     [Connection Plain None ''t0'', Authentication 0 (auth_ok ''alice'' ''r1'') ''t0'' True,
      Connection Plain None ''t0'', Authentication 1 (auth_ok ''alice'' ''r2'') ''t1'' True]"

definition alice_moved :: state where
  "alice_moved =
     run route_onmessage init (alice_twice @ [Disconnect 0 ''io server disconnect'' ''t2''])"

definition alice_again :: "event list" where
  "alice_again =
     [Authentication 1 (auth_ok ''alice'' ''r1'') ''t1'' True, ForwardMsg 1 hi_to_carol True ''t1'']"

text \<open>Whether an event is an authentication on connection \<open>i\<close>.\<close>

fun auth_on :: "sid \<Rightarrow> event \<Rightarrow> bool" where
  "auth_on i (Authentication j result t ack) = (i = j)"
| "auth_on i ev = False"

section \<open>Properties\<close>

subsection \<open>The scenario states, evaluated\<close>

lemma alice_online_maps:
  "connectionMap alice_online = [(''alice'', 0)]"
  "roomMembers alice_online = [(''r1'', [''alice''])]"
  "next_sid alice_online = 2"
  by code_simp+


lemma alice_bob_online_maps:
  "connectionMap alice_bob_online = [(''alice'', 0), (''bob'', 1)]"
  "roomMembers alice_bob_online = [(''r1'', [''alice'', ''bob''])]"
  "next_sid alice_bob_online = 2"
  by code_simp+

lemma alice_bob_online_sockets:
  "sockets alice_bob_online 0 =
     \<lparr>sock_cid = Some ''alice'', sock_room = Some ''r1'', sock_rooms = [''r1''],
      sock_server = Plain, sock_connected = True\<rparr>"
  "sockets alice_bob_online 1 =
     \<lparr>sock_cid = Some ''bob'', sock_room = Some ''r1'', sock_rooms = [''r1''],
      sock_server = Plain, sock_connected = True\<rparr>"
  by code_simp+

lemma alice_again_maps:
  "connectionMap
     (run route_onmessage (snd (disconnectClient alice_online ''alice'' ''t1'')) alice_again) =
     [(''alice'', 1)]"
  "roomMembers
     (run route_onmessage (snd (disconnectClient alice_online ''alice'' ''t1'')) alice_again) =
     [(''r1'', [''alice''])]"
  by code_simp+

lemma bob_joins_effects:
  "fst (on_authentication alice_online 1 (auth_ok ''bob'' ''r1'') ''t1'' True) =
     [Emit 1 ''server-authenticated'' (JObject [(''uid'', JString ''bob'')]),
      Emit 0 ''room-list'' (JArray [JString ''alice'', JString ''bob'']),
      Emit 1 ''room-list'' (JArray [JString ''alice'', JString ''bob'']),
      Emit 0 ''room-event'' (joinMsg ''bob'' [''alice''] ''t1''),
      Emit 1 ''room-event'' (joinMsg ''bob'' [''alice''] ''t1''),
      Ack 1 (JObject [(''uid'', JString ''bob''), (''room'', JString ''r1'')])]"
  by code_simp

lemma bob_joins_state:
  "roomMembers (snd (on_authentication alice_online 1 (auth_ok ''bob'' ''r1'') ''t1'' True)) =
     [(''r1'', [''alice'', ''bob''])]"
  "in_room (snd (on_authentication alice_online 1 (auth_ok ''bob'' ''r1'') ''t1'' True)) Plain ''r1'' =
     [0, 1]"
  "sock_server (sockets (snd (on_authentication alice_online 1 (auth_ok ''bob'' ''r1'') ''t1'' True)) 1) =
     Plain"
  by code_simp+

lemma bob_joins_secure:
  "fst (on_authentication alice_plain 1 (auth_ok ''bob'' ''r1'') ''t1'' True) =
     [Emit 1 ''server-authenticated'' (JObject [(''uid'', JString ''bob'')]),
      Emit 1 ''room-list'' (JArray [JString ''alice'', JString ''bob'']),
      Emit 1 ''room-event'' (joinMsg ''bob'' [''alice''] ''t1''),
      Ack 1 (JObject [(''uid'', JString ''bob''), (''room'', JString ''r1'')])]"
  "sock_connected (sockets alice_plain 0)"
  "sock_rooms (sockets alice_plain 0) = [''r1'']"
  "roomMembers (snd (on_authentication alice_plain 1 (auth_ok ''bob'' ''r1'') ''t1'' True)) =
     [(''r1'', [''alice'', ''bob''])]"
  by code_simp+


subsection \<open>Routing\<close>

lemma get_field_update_other: "k \<noteq> k' \<Longrightarrow> get_field (AList.update k v fs) k' = get_field fs k'"
  by (simp add: get_field_def update_conv')

lemma stamp_sender_to: "fst (stamp_sender c data) = get_field data ''to''"
  by (simp add: stamp_sender_def Let_def get_field_update_other)

lemma stamp_sender_from: "map_of (snd (stamp_sender c data)) ''from'' = Some (JString c)"
  by (simp add: stamp_sender_def Let_def delete_conv' update_conv')

lemma stamp_sender_no_to: "map_of (snd (stamp_sender c data)) ''to'' = None"
  by (simp add: stamp_sender_def Let_def delete_conv')

lemma stamp_sender_rest:
  "k \<noteq> ''from'' \<Longrightarrow> k \<noteq> ''to'' \<Longrightarrow> map_of (snd (stamp_sender c data)) k = map_of data k"
  by (simp add: stamp_sender_def Let_def delete_conv' update_conv')

lemma on_forward_authenticated:
  "sock_cid (sockets s i) = Some c \<Longrightarrow> c \<noteq> [] \<Longrightarrow>
   on_forward om s i data ack t =
     (case om s (get_field data ''to'') (JObject (snd (stamp_sender c data))) of
        Inr es \<Rightarrow> (es @ [if ack then Ack i JUndefined else Uncaught ''TypeError''], s)
      | Inl err \<Rightarrow> ([if ack then Ack i (err_code err) else Uncaught ''TypeError''], s))"
  using stamp_sender_to [of c data]
  by (auto simp add: on_forward_def split: prod.splits)

lemma stamp_hi_to_bob:
  "stamp_sender ''alice'' hi_to_bob =
     (JString ''bob'', [(''from'', JString ''alice''), (''text'', JString ''hi'')])"
  by (simp add: stamp_sender_def hi_to_bob_def get_field_def AList.delete_eq)

text \<open>
  C3. On a connection whose cid is set (and truthy, the handler's own test), the
  forward handler hands to \<open>server.onmessage\<close>, whatever that callback is, the
  destination read from the payload and a payload in which \<open>from\<close> is the connection's
  cid, whatever \<open>from\<close> the sender wrote, \<open>to\<close> is absent, and every other field is as
  sent. This holds with and without an acknowledgement callback: the callback is called
  after the payload was handed on.
\<close>

theorem forward_stamps_sender:
  assumes "sock_cid (sockets s i) = Some c" and "c \<noteq> []"
  shows "on_forward om s i data ack t =
           (case om s (get_field data ''to'') (JObject (snd (stamp_sender c data))) of
              Inr es \<Rightarrow> (es @ [if ack then Ack i JUndefined else Uncaught ''TypeError''], s)
            | Inl err \<Rightarrow> ([if ack then Ack i (err_code err) else Uncaught ''TypeError''], s))
         \<and> map_of (snd (stamp_sender c data)) ''from'' = Some (JString c)
         \<and> map_of (snd (stamp_sender c data)) ''to'' = None
         \<and> (\<forall>k. k \<noteq> ''from'' \<and> k \<noteq> ''to''
                \<longrightarrow> map_of (snd (stamp_sender c data)) k = map_of data k)"
  using assms
  by (simp add: on_forward_authenticated stamp_sender_from stamp_sender_no_to stamp_sender_rest)

theorem forward_stamps_sender_witness:
  "sock_cid (sockets alice_bob_online 0) = Some ''alice'' \<and> ''alice'' \<noteq> []
   \<and> on_forward route_onmessage alice_bob_online 0 hi_to_bob True ''t2'' =
       ([Emit 1 ''owt-message'' (JObject [(''from'', JString ''alice''), (''text'', JString ''hi'')]),
         Ack 0 JUndefined], alice_bob_online)
   \<and> map_of (snd (stamp_sender ''alice'' hi_to_bob)) ''from'' = Some (JString ''alice'')
   \<and> map_of (snd (stamp_sender ''alice'' hi_to_bob)) ''to'' = None
   \<and> map_of (snd (stamp_sender ''alice'' hi_to_bob)) ''text'' = Some (JString ''hi'')"
proof -
  have h1: "sock_cid (sockets alice_bob_online 0) = Some ''alice''"
    by (simp add: alice_bob_online_sockets)
  have h2: "''alice'' \<noteq> []" by simp
  have d: "get_field hi_to_bob ''to'' = JString ''bob''"
    by (simp add: get_field_def hi_to_bob_def)
  have t: "map_of hi_to_bob ''text'' = Some (JString ''hi'')"
    by (simp add: hi_to_bob_def)
  from forward_stamps_sender [OF h1 h2, of route_onmessage hi_to_bob True "''t2''"] h1 d t
  show ?thesis
    by (simp add: stamp_hi_to_bob route_onmessage_def server_send_def emitChatEvent_def
          forwardEventName_def alice_bob_online_maps)
qed



text \<open>
  C10. \<open>server.send(cid, message)\<close> with \<open>cid\<close> registered to \<open>conn\<close>: the promise
  resolves and the one effect is \<open>emit('owt-message', message)\<close> on \<open>conn\<close>, the event
  name of the forward handler, with the message as given: no \<open>from\<close> is written, no
  \<open>to\<close> removed.
\<close>

theorem send_verbatim:
  "map_of (connectionMap s) c = Some conn \<Longrightarrow>
   server_send s (JString c) message = Inr [Emit conn forwardEventName message]
   \<and> forwardEventName = ''owt-message''"
  by (simp add: server_send_def emitChatEvent_def forwardEventName_def)

theorem send_verbatim_witness:
  "map_of (connectionMap alice_bob_online) ''bob'' = Some 1
   \<and> server_send alice_bob_online (JString ''bob'') (JObject hi_to_carol) =
       Inr [Emit 1 ''owt-message'' (JObject hi_to_carol)]"
proof -
  have h: "map_of (connectionMap alice_bob_online) ''bob'' = Some 1"
    by (simp add: alice_bob_online_maps)
  from send_verbatim [OF h, of "JObject hi_to_carol"] h
  show ?thesis by simp
qed

subsection \<open>What each handler does to the state\<close>

lemma socket_close_fields:
  "connectionMap (socket_close i s) = connectionMap s"
  "roomMembers (socket_close i s) = roomMembers s"
  "next_sid (socket_close i s) = next_sid s"
  "sock_cid (sockets (socket_close i s) j) = sock_cid (sockets s j)"
  "sock_room (sockets (socket_close i s) j) = sock_room (sockets s j)"
  "\<not> sock_connected (sockets (socket_close i s) i)"
  by (simp_all add: socket_close_def)

lemma on_disconnect_fields:
  "sockets (snd (on_disconnect s i r t)) = sockets s"
  "next_sid (snd (on_disconnect s i r t)) = next_sid s"
  by (simp_all add: on_disconnect_def Let_def split: option.splits)

lemma on_disconnect_connectionMap:
  "connectionMap (snd (on_disconnect s i r t)) =
     (case sock_cid (sockets s i) of None \<Rightarrow> connectionMap s
      | Some c \<Rightarrow> if c \<noteq> [] then AList.delete c (connectionMap s) else connectionMap s)"
  by (simp add: on_disconnect_def Let_def split: option.splits)

lemma on_disconnect_unauthenticated:
  "\<not> truthy_str (sock_cid (sockets s i)) \<Longrightarrow> on_disconnect s i r t = ([], s)"
  by (cases "sock_cid (sockets s i)") (simp_all add: on_disconnect_def)

lemma socket_disconnect_unauthenticated:
  "\<not> truthy_str (sock_cid (sockets s i)) \<Longrightarrow>
   socket_disconnect s i t =
     ([Close i], if sock_connected (sockets s i) then socket_close i s else s)"
  by (simp add: socket_disconnect_def on_disconnect_unauthenticated socket_close_fields)

lemma socket_disconnect_fields:
  "next_sid (snd (socket_disconnect s i t)) = next_sid s"
  "sock_cid (sockets (snd (socket_disconnect s i t)) j) = sock_cid (sockets s j)"
  "\<not> sock_connected (sockets (snd (socket_disconnect s i t)) i)"
  by (simp_all add: socket_disconnect_def split_beta on_disconnect_fields socket_close_fields)

lemma socket_disconnect_distinct:
  "distinct (map fst (connectionMap s)) \<Longrightarrow>
   distinct (map fst (connectionMap (snd (socket_disconnect s i t))))"
  by (simp add: socket_disconnect_def split_beta on_disconnect_connectionMap socket_close_fields
        distinct_delete split: option.splits)

lemma disconnectClient_evicts:
  "map_of (connectionMap s) c = Some old \<Longrightarrow>
   disconnectClient s c t =
     ([Emit old ''server-disconnect'' JUndefined, Close old],
      if sock_connected (sockets s old)
      then socket_close old
             (s\<lparr>connectionMap := AList.delete c (connectionMap s),
                sockets := (sockets s)(old := (sockets s old)\<lparr>sock_cid := None\<rparr>)\<rparr>)
      else s\<lparr>connectionMap := AList.delete c (connectionMap s),
             sockets := (sockets s)(old := (sockets s old)\<lparr>sock_cid := None\<rparr>)\<rparr>)"
  by (simp add: disconnectClient_def Let_def socket_disconnect_unauthenticated)

lemma disconnectClient_connectionMap:
  "connectionMap (snd (disconnectClient s c t)) = AList.delete c (connectionMap s)"
proof (cases "map_of (connectionMap s) c")
  case None
  then have "c \<notin> fst ` set (connectionMap s)" by (simp add: map_of_eq_None_iff)
  with None show ?thesis by (simp add: disconnectClient_def)
next
  case (Some conn)
  then show ?thesis by (simp add: disconnectClient_evicts socket_close_def)
qed

lemma disconnectClient_roomMembers: "roomMembers (snd (disconnectClient s c t)) = roomMembers s"
  by (cases "map_of (connectionMap s) c")
     (simp_all add: disconnectClient_evicts socket_close_def, simp add: disconnectClient_def)

lemma disconnectClient_next_sid: "next_sid (snd (disconnectClient s c t)) = next_sid s"
  by (cases "map_of (connectionMap s) c")
     (simp_all add: disconnectClient_evicts socket_close_def, simp add: disconnectClient_def)

lemma disconnectClient_sock_cid:
  "sock_cid (sockets (snd (disconnectClient s c t)) j) =
     (if map_of (connectionMap s) c = Some j then None else sock_cid (sockets s j))"
  by (cases "map_of (connectionMap s) c")
     (simp_all add: disconnectClient_evicts socket_close_def, simp add: disconnectClient_def)

lemma disconnectClient_closes:
  "map_of (connectionMap s) c = Some old \<Longrightarrow>
   \<not> sock_connected (sockets (snd (disconnectClient s c t)) old)"
  by (simp add: disconnectClient_evicts socket_close_def)

lemma on_authentication_ok:
  "\<not> truthy (res_error result) \<Longrightarrow>
   connectionMap (snd (on_authentication s i result t ack)) =
     AList.update (res_cid result) i (AList.delete (res_cid result) (connectionMap s))
   \<and> roomMembers (snd (on_authentication s i result t ack)) =
     room_join (room_or_default (res_room result)) (res_cid result) (roomMembers s)
   \<and> next_sid (snd (on_authentication s i result t ack)) = next_sid s"
  using disconnectClient_connectionMap [of s "res_cid result" t]
        disconnectClient_roomMembers [of s "res_cid result" t]
        disconnectClient_next_sid [of s "res_cid result" t]
  by (simp add: on_authentication_def Let_def socket_join_def split_beta)

lemma on_authentication_sock_cid:
  "\<not> truthy (res_error result) \<Longrightarrow> j \<noteq> i \<Longrightarrow>
   sock_cid (sockets (snd (on_authentication s i result t ack)) j) =
     (if map_of (connectionMap s) (res_cid result) = Some j then None else sock_cid (sockets s j))"
  using disconnectClient_sock_cid [of s "res_cid result" t j]
  by (simp add: on_authentication_def Let_def socket_join_def split_beta)

lemma on_authentication_failed:
  "truthy (res_error result) \<Longrightarrow>
   snd (on_authentication s i result t ack) =
     (if ack then snd (socket_disconnect s i t) else s)"
  by (simp add: on_authentication_def split_beta)

lemma on_authentication_evicts:
  assumes "map_of (connectionMap s) c = Some old" and "old \<noteq> i"
    and "\<not> truthy (res_error result)" and "res_cid result = c"
  shows "take 2 (fst (on_authentication s i result t ack)) =
           [Emit old ''server-disconnect'' JUndefined, Close old]"
    and "\<not> sock_connected (sockets (snd (on_authentication s i result t ack)) old)"
    and "sock_cid (sockets (snd (on_authentication s i result t ack)) old) = None"
  using assms
  by (simp_all add: on_authentication_def Let_def disconnectClient_evicts socket_join_def
        socket_close_def)

lemma on_forward_fields:
  "connectionMap (snd (on_forward om s i data ack t)) = connectionMap s"
  "roomMembers (snd (on_forward om s i data ack t)) = roomMembers s"
  "next_sid (snd (on_forward om s i data ack t)) = next_sid s"
  "sock_cid (sockets (snd (on_forward om s i data ack t)) j) = sock_cid (sockets s j)"
  by (cases "sock_cid (sockets s i)";
      simp add: on_forward_def unauthenticated_sender_def socket_disconnect_unauthenticated
        socket_close_def split: prod.splits sum.splits)+

lemma onConnection_fields:
  "next_sid (snd (onConnection s l pre t)) = Suc (next_sid s)"
  "connectionMap (snd (onConnection s l pre t)) =
     (if truthy_str pre
      then AList.update (the pre) (next_sid s) (AList.delete (the pre) (connectionMap s))
      else connectionMap s)"
  "roomMembers (snd (onConnection s l pre t)) = roomMembers s"
  using disconnectClient_next_sid
          [of "s\<lparr>sockets := (sockets s)(next_sid s := new_socket l pre), next_sid := Suc (next_sid s)\<rparr>"
              "the pre" t]
        disconnectClient_connectionMap
          [of "s\<lparr>sockets := (sockets s)(next_sid s := new_socket l pre), next_sid := Suc (next_sid s)\<rparr>"
              "the pre" t]
        disconnectClient_roomMembers
          [of "s\<lparr>sockets := (sockets s)(next_sid s := new_socket l pre), next_sid := Suc (next_sid s)\<rparr>"
              "the pre" t]
  by (auto simp add: onConnection_def Let_def split: option.splits prod.splits)

lemma onConnection_sock_cid:
  "j < next_sid s \<Longrightarrow> sock_cid (sockets s j) = None \<Longrightarrow>
   sock_cid (sockets (snd (onConnection s l pre t)) j) = None"
  using disconnectClient_sock_cid
          [of "s\<lparr>sockets := (sockets s)(next_sid s := new_socket l pre), next_sid := Suc (next_sid s)\<rparr>"
              "the pre" t j]
  by (auto simp add: onConnection_def Let_def split: option.splits prod.splits)

subsection \<open>Events on a connection without a cid\<close>







subsection \<open>One connection per cid\<close>

lemma step_distinct:
  assumes "distinct (map fst (connectionMap s))"
  shows "distinct (map fst (connectionMap (snd (step om s ev))))"
proof (cases ev)
  case (Connection l pre t)
  with assms show ?thesis
    by (simp add: step_def onConnection_fields distinct_update distinct_delete)
next
  case (Authentication i result t ack)
  with assms show ?thesis
    by (cases "truthy (res_error result)")
       (simp_all add: step_def on_authentication_ok on_authentication_failed
          socket_disconnect_distinct distinct_update distinct_delete)
next
  case (Disconnect i r t)
  with assms show ?thesis
    by (simp add: step_def on_disconnect_connectionMap socket_close_fields distinct_delete
          split: option.splits)
next
  case (ForwardMsg i data ack t)
  with assms show ?thesis by (simp add: step_def on_forward_fields)
next
  case (Send c m)
  with assms show ?thesis by (simp add: step_def split: sum.splits)
next
  case (ServerDisconnect c t)
  with assms show ?thesis
    by (simp add: step_def server_disconnect_def disconnectClient_connectionMap distinct_delete)
qed

lemma run_distinct:
  "distinct (map fst (connectionMap s)) \<Longrightarrow> distinct (map fst (connectionMap (run om s evs)))"
  by (induction evs arbitrary: s) (simp_all add: step_distinct)

lemma distinct_keys_at_most_one:
  "distinct (map fst xs) \<Longrightarrow> length (filter (\<lambda>e. fst e = k) xs) \<le> 1"
  by (induction xs) (auto simp add: filter_empty_conv rev_image_eqI)

lemma set_update_delete:
  "set (AList.update k v (AList.delete k xs)) = {e \<in> set xs. fst e \<noteq> k} \<union> {(k, v)}"
  by (induction xs) auto

lemma filter_update_delete:
  "filter (\<lambda>e. fst e = k) (AList.update k v (AList.delete k xs)) = [(k, v)]"
  by (induction xs) auto

text \<open>
  C1. After any sequence of events from the initial state, \<open>connectionMap\<close> has at most
  one entry for every cid. When an authentication succeeds with a cid that is registered
  to another connection \<open>old\<close>, the first two effects are the \<open>server-disconnect\<close>
  notification of \<open>old\<close> and its close; afterwards \<open>old\<close> is closed with its cid
  reset, the directory is the old one without the entries of that cid plus the entry of
  the new connection, and the one entry of the cid is the new connection. This holds
  with and without an acknowledgement callback.
\<close>

theorem single_session:
  "(\<forall>k. length (filter (\<lambda>e. fst e = k) (connectionMap (run om init evs))) \<le> 1)
   \<and> (map_of (connectionMap s) c = Some old \<and> old \<noteq> i
        \<and> \<not> truthy (res_error result) \<and> res_cid result = c \<longrightarrow>
        take 2 (fst (on_authentication s i result t ack)) =
          [Emit old ''server-disconnect'' JUndefined, Close old]
      \<and> \<not> sock_connected (sockets (snd (on_authentication s i result t ack)) old)
      \<and> sock_cid (sockets (snd (on_authentication s i result t ack)) old) = None
      \<and> set (connectionMap (snd (on_authentication s i result t ack))) =
          {e \<in> set (connectionMap s). fst e \<noteq> c} \<union> {(c, i)}
      \<and> filter (\<lambda>e. fst e = c) (connectionMap (snd (on_authentication s i result t ack))) =
          [(c, i)]
      \<and> map_of (connectionMap (snd (on_authentication s i result t ack))) c = Some i)"
proof -
  have "distinct (map fst (connectionMap init))" by (simp add: init_def)
  then have "distinct (map fst (connectionMap (run om init evs)))" by (rule run_distinct)
  then have inv: "\<forall>k. length (filter (\<lambda>e. fst e = k) (connectionMap (run om init evs))) \<le> 1"
    by (intro allI distinct_keys_at_most_one)
  have ev: "take 2 (fst (on_authentication s i result t ack)) =
          [Emit old ''server-disconnect'' JUndefined, Close old]
      \<and> \<not> sock_connected (sockets (snd (on_authentication s i result t ack)) old)
      \<and> sock_cid (sockets (snd (on_authentication s i result t ack)) old) = None
      \<and> set (connectionMap (snd (on_authentication s i result t ack))) =
          {e \<in> set (connectionMap s). fst e \<noteq> c} \<union> {(c, i)}
      \<and> filter (\<lambda>e. fst e = c) (connectionMap (snd (on_authentication s i result t ack))) =
          [(c, i)]
      \<and> map_of (connectionMap (snd (on_authentication s i result t ack))) c = Some i"
    if h: "map_of (connectionMap s) c = Some old" "old \<noteq> i"
          "\<not> truthy (res_error result)" "res_cid result = c"
    using on_authentication_evicts [OF h, of t ack] h(3,4)
    by (simp add: on_authentication_ok set_update_delete filter_update_delete update_conv')
  from inv ev show ?thesis by blast
qed

theorem single_session_witness:
  "length (filter (\<lambda>e. fst e = ''alice'') (connectionMap (run route_onmessage init alice_twice))) \<le> 1
   \<and> map_of (connectionMap alice_online) ''alice'' = Some 0
   \<and> take 2 (fst (on_authentication alice_online 1 (auth_ok ''alice'' ''r2'') ''t1'' True)) =
          [Emit 0 ''server-disconnect'' JUndefined, Close 0]
   \<and> \<not> sock_connected
         (sockets (snd (on_authentication alice_online 1 (auth_ok ''alice'' ''r2'') ''t1'' True)) 0)
   \<and> sock_cid (sockets (snd (on_authentication alice_online 1 (auth_ok ''alice'' ''r2'') ''t1'' True)) 0)
       = None
   \<and> filter (\<lambda>e. fst e = ''alice'')
        (connectionMap (snd (on_authentication alice_online 1 (auth_ok ''alice'' ''r2'') ''t1'' True))) =
       [(''alice'', 1)]
   \<and> map_of (connectionMap (snd (on_authentication alice_online 1 (auth_ok ''alice'' ''r2'') ''t1'' True)))
        ''alice'' = Some 1"
proof -
  have h: "map_of (connectionMap alice_online) ''alice'' = Some 0"
    by (simp add: alice_online_maps)
  have r: "\<not> truthy (res_error (auth_ok ''alice'' ''r2''))
           \<and> res_cid (auth_ok ''alice'' ''r2'') = ''alice''"
    by (simp add: auth_ok_def)
  from single_session [of route_onmessage alice_twice alice_online "''alice''" 0 1
         "auth_ok ''alice'' ''r2''" "''t1''" True] h r
  show ?thesis by simp
qed

subsection \<open>Rooms\<close>

text \<open>
  C2. The room registry is not kept in step with the directory on the eviction path.
  Alice authenticates into room r1, the server evicts her with
  \<open>server.disconnect('alice')\<close>, and the transport reports the disconnect of her
  socket: \<open>disconnectClient\<close> has reset the socket's cid, so the disconnect handler
  skips the room cleanup it does for every other disconnect. Afterwards the directory is
  empty, the socket is closed, and \<open>roomMembers\<close> still holds alice in r1. Likewise,
  when alice authenticates again on a second connection into room r2, she stays a member
  of r1 after the first connection is gone, while her one live connection is in r2.
\<close>

theorem eviction_leaves_room_member:
  "connectionMap alice_kicked = []
   \<and> roomMembers alice_kicked = [(''r1'', [''alice''])]
   \<and> sock_cid (sockets alice_kicked 0) = None
   \<and> \<not> sock_connected (sockets alice_kicked 0)
   \<and> connectionMap alice_moved = [(''alice'', 1)]
   \<and> roomMembers alice_moved = [(''r1'', [''alice'']), (''r2'', [''alice''])]
   \<and> sock_room (sockets alice_moved 1) = Some ''r2''
   \<and> \<not> sock_connected (sockets alice_moved 0)"
  by code_simp

lemma room_users_join: "room_users (room_join r c rm) r = set_add c (room_users rm r)"
  by (simp add: room_users_def room_join_def Let_def update_conv' split: option.splits)

lemma on_authentication_effects:
  "\<not> truthy (res_error result) \<Longrightarrow>
   set (emit_in (snd (on_authentication s i result t ack)) i (room_or_default (res_room result))
          ''room-list''
          (JArray (map JString (room_users (roomMembers (snd (on_authentication s i result t ack)))
                                  (room_or_default (res_room result))))))
   \<union> set (emit_in (snd (on_authentication s i result t ack)) i (room_or_default (res_room result))
          ''room-event''
          (joinMsg (res_cid result)
             (filter (\<lambda>u. u \<noteq> res_cid result)
                (room_users (roomMembers (snd (on_authentication s i result t ack)))
                   (room_or_default (res_room result)))) t))
   \<subseteq> set (fst (on_authentication s i result t ack))"
  by (auto simp add: on_authentication_def Let_def split_beta)

text \<open>
  C7. Two inputs. The member list of the \<open>user-joined\<close> event leaves the joiner out: when
  bob joins room r1 where alice is, both on the plain listener, the \<open>user-joined\<close> event
  alice receives lists alice only; the list with the joiner, alice and bob, is the
  payload of the \<open>room-list\<close> event. And the broadcast stays on the joiner's listener:
  when alice is connected on the plain listener, in room r1, and bob joins r1 on the
  secure one, the member list is alice and bob, yet every event goes to bob's
  connection and none to alice's.
\<close>

theorem user_joined_users_counterexample:
  "fst (on_authentication alice_online 1 (auth_ok ''bob'' ''r1'') ''t1'' True) =
     [Emit 1 ''server-authenticated'' (JObject [(''uid'', JString ''bob'')]),
      Emit 0 ''room-list'' (JArray [JString ''alice'', JString ''bob'']),
      Emit 1 ''room-list'' (JArray [JString ''alice'', JString ''bob'']),
      Emit 0 ''room-event'' (joinMsg ''bob'' [''alice''] ''t1''),
      Emit 1 ''room-event'' (joinMsg ''bob'' [''alice''] ''t1''),
      Ack 1 (JObject [(''uid'', JString ''bob''), (''room'', JString ''r1'')])]
   \<and> get_field [(''type'', JString ''user-joined''), (''cid'', JString ''bob''),
                 (''users'', JArray [JString ''alice'']), (''timestamp'', JString ''t1'')] ''users''
       \<noteq> JArray [JString ''alice'', JString ''bob'']
   \<and> Emit 0 ''room-event'' (joinMsg ''bob'' [''alice'', ''bob''] ''t1'')
       \<notin> set (fst (on_authentication alice_online 1 (auth_ok ''bob'' ''r1'') ''t1'' True))
   \<and> sock_connected (sockets alice_plain 0)
   \<and> sock_rooms (sockets alice_plain 0) = [''r1'']
   \<and> roomMembers (snd (on_authentication alice_plain 1 (auth_ok ''bob'' ''r1'') ''t1'' True)) =
       [(''r1'', [''alice'', ''bob''])]
   \<and> fst (on_authentication alice_plain 1 (auth_ok ''bob'' ''r1'') ''t1'' True) =
     [Emit 1 ''server-authenticated'' (JObject [(''uid'', JString ''bob'')]),
      Emit 1 ''room-list'' (JArray [JString ''alice'', JString ''bob'']),
      Emit 1 ''room-event'' (joinMsg ''bob'' [''alice''] ''t1''),
      Ack 1 (JObject [(''uid'', JString ''bob''), (''room'', JString ''r1'')])]"
  using bob_joins_effects bob_joins_secure by (simp add: joinMsg_def get_field_def)

text \<open>
  C7, with the member list the handler sends. After a successful authentication of a cid
  into a room, with or without an acknowledgement callback, the room's member list is
  the former list with the cid added, and each connected socket of the joiner's server
  that joined the room receives a \<open>room-list\<close> event with that list and a \<open>room-event\<close>
  whose payload carries the type \<open>user-joined\<close>, the cid, the member list without the
  cid, and the timestamp. Nothing is stated about members connected through the other
  listener.
\<close>

theorem user_joined_broadcast:
  assumes "\<not> truthy (res_error result)"
  shows "room_users (roomMembers (snd (on_authentication s i result t ack)))
           (room_or_default (res_room result)) =
           set_add (res_cid result) (room_users (roomMembers s) (room_or_default (res_room result)))
       \<and> (\<forall>j \<in> set (in_room (snd (on_authentication s i result t ack))
                        (sock_server (sockets (snd (on_authentication s i result t ack)) i))
                        (room_or_default (res_room result))).
            Emit j ''room-list''
              (JArray (map JString (room_users (roomMembers (snd (on_authentication s i result t ack)))
                                      (room_or_default (res_room result)))))
              \<in> set (fst (on_authentication s i result t ack))
          \<and> Emit j ''room-event''
              (JObject [(''type'', JString ''user-joined''), (''cid'', JString (res_cid result)),
                        (''users'', JArray (map JString
                            (filter (\<lambda>u. u \<noteq> res_cid result)
                               (room_users (roomMembers (snd (on_authentication s i result t ack)))
                                  (room_or_default (res_room result)))))),
                        (''timestamp'', JString t)])
              \<in> set (fst (on_authentication s i result t ack)))"
proof -
  have m: "room_users (roomMembers (snd (on_authentication s i result t ack)))
             (room_or_default (res_room result)) =
           set_add (res_cid result) (room_users (roomMembers s) (room_or_default (res_room result)))"
    using assms by (simp add: on_authentication_ok room_users_join)
  show ?thesis
    using m on_authentication_effects [OF assms, of s i t ack]
    by (auto simp add: emit_in_def joinMsg_def)
qed

theorem user_joined_broadcast_witness:
  "\<not> truthy (res_error (auth_ok ''bob'' ''r1''))
   \<and> room_users (roomMembers (snd (on_authentication alice_online 1 (auth_ok ''bob'' ''r1'') ''t1'' True)))
        ''r1'' = [''alice'', ''bob'']
   \<and> Emit 0 ''room-list'' (JArray [JString ''alice'', JString ''bob''])
       \<in> set (fst (on_authentication alice_online 1 (auth_ok ''bob'' ''r1'') ''t1'' True))
   \<and> Emit 0 ''room-event''
        (JObject [(''type'', JString ''user-joined''), (''cid'', JString ''bob''),
                  (''users'', JArray [JString ''alice'']), (''timestamp'', JString ''t1'')])
       \<in> set (fst (on_authentication alice_online 1 (auth_ok ''bob'' ''r1'') ''t1'' True))"
proof -
  have h: "\<not> truthy (res_error (auth_ok ''bob'' ''r1''))"
    by (simp add: auth_ok_def)
  have r: "room_or_default (res_room (auth_ok ''bob'' ''r1'')) = ''r1''"
          "res_cid (auth_ok ''bob'' ''r1'') = ''bob''"
    by (simp_all add: auth_ok_def room_or_default_def)
  from user_joined_broadcast [OF h, of alice_online 1 "''t1''" True] h bob_joins_state
  show ?thesis
    by (simp add: r room_users_def)
qed

subsection \<open>Disconnects\<close>

lemma on_disconnect_twice:
  "snd (on_disconnect (snd (on_disconnect s i r t)) i r' t') = snd (on_disconnect s i r t)"
proof (cases "sock_cid (sockets s i)")
  case None
  then show ?thesis by (simp add: on_disconnect_def)
next
  case (Some c)
  show ?thesis
  proof (cases "c = []")
    case True
    with Some show ?thesis by (simp add: on_disconnect_def)
  next
    case False
    show ?thesis
    proof (cases "sock_room (sockets s i)")
      case None
      with Some False show ?thesis
        by (simp add: on_disconnect_def Let_def delete_idem)
    next
      case sr: (Some r)
      show ?thesis
      proof (cases "r \<noteq> [] \<and> map_of (roomMembers s) r \<noteq> None")
        case no: False
        with Some False sr show ?thesis
          by (auto simp add: on_disconnect_def Let_def delete_idem)
      next
        case True
        then obtain ms where ms: "map_of (roomMembers s) r = Some ms" and r: "r \<noteq> []" by auto
        show ?thesis
        proof (cases "set_delete c ms = []")
          case e: True
          with Some False sr ms r show ?thesis
            by (simp add: on_disconnect_def Let_def delete_idem delete_conv')
        next
          case ne: False
          with Some False sr ms r show ?thesis
            by (simp add: on_disconnect_def Let_def delete_idem update_conv' set_delete_def)
        qed
      qed
    qed
  qed
qed

text \<open>
  C8. The disconnect handler run twice on the same connection leaves the state, and so
  \<open>connectionMap\<close> and \<open>roomMembers\<close>, as one run does; the same holds for two
  \<open>Disconnect\<close> events of the transport.
\<close>

theorem disconnect_idempotent:
  "snd (on_disconnect (snd (on_disconnect s i r t)) i r' t') = snd (on_disconnect s i r t)
   \<and> snd (step om (snd (step om s (Disconnect i r t))) (Disconnect i r' t')) =
       snd (step om s (Disconnect i r t))"
proof -
  have c: "socket_close i (snd (on_disconnect (socket_close i s) i r t)) =
           snd (on_disconnect (socket_close i s) i r t)"
    using on_disconnect_fields(1) [of "socket_close i s" i r t]
    by (simp add: socket_close_def)
  show ?thesis
    by (simp add: step_def c on_disconnect_twice)
qed

theorem disconnect_idempotent_witness:
  "connectionMap (snd (step route_onmessage alice_bob_online (Disconnect 1 ''ping timeout'' ''t2'')))
     = [(''alice'', 0)]
   \<and> roomMembers (snd (step route_onmessage alice_bob_online (Disconnect 1 ''ping timeout'' ''t2'')))
     = [(''r1'', [''alice''])]
   \<and> connectionMap
       (snd (step route_onmessage
               (snd (step route_onmessage alice_bob_online (Disconnect 1 ''ping timeout'' ''t2'')))
               (Disconnect 1 ''transport close'' ''t3''))) = [(''alice'', 0)]
   \<and> roomMembers
       (snd (step route_onmessage
               (snd (step route_onmessage alice_bob_online (Disconnect 1 ''ping timeout'' ''t2'')))
               (Disconnect 1 ''transport close'' ''t3''))) = [(''r1'', [''alice''])]"
proof -
  have a: "connectionMap
             (snd (step route_onmessage alice_bob_online (Disconnect 1 ''ping timeout'' ''t2'')))
           = [(''alice'', 0)]"
    using alice_bob_online_sockets(2)
    by (simp add: step_def on_disconnect_connectionMap socket_close_def alice_bob_online_maps
          AList.delete_eq)
  have b: "roomMembers
             (snd (step route_onmessage alice_bob_online (Disconnect 1 ''ping timeout'' ''t2'')))
           = [(''r1'', [''alice''])]"
    using alice_bob_online_sockets(2)
    by (simp add: step_def on_disconnect_def socket_close_def alice_bob_online_maps Let_def
          set_delete_def)
  from disconnect_idempotent [of alice_bob_online 1 "''ping timeout''" "''t2''"
         "''transport close''" "''t3''" route_onmessage] a b
  show ?thesis by simp
qed

lemma step_cid_null:
  assumes "old < next_sid s" and "sock_cid (sockets s old) = None" and "\<not> auth_on old ev"
  shows "old < next_sid (snd (step om s ev)) \<and> sock_cid (sockets (snd (step om s ev)) old) = None"
proof (cases ev)
  case (Connection l pre t)
  with assms show ?thesis
    by (simp add: step_def onConnection_fields onConnection_sock_cid)
next
  case (Authentication i result t ack)
  with assms have "old \<noteq> i" by simp
  with assms Authentication show ?thesis
    by (cases "truthy (res_error result)")
       (simp_all add: step_def on_authentication_ok on_authentication_failed
          socket_disconnect_fields on_authentication_sock_cid)
next
  case (Disconnect i r t)
  with assms show ?thesis
    by (simp add: step_def on_disconnect_fields socket_close_fields)
next
  case (ForwardMsg i data ack t)
  with assms show ?thesis by (simp add: step_def on_forward_fields)
next
  case (Send c m)
  with assms show ?thesis by (simp add: step_def split: sum.splits)
next
  case (ServerDisconnect c t)
  with assms show ?thesis
    by (simp add: step_def server_disconnect_def disconnectClient_next_sid
          disconnectClient_sock_cid)
qed

lemma run_cid_null:
  "old < next_sid s \<Longrightarrow> sock_cid (sockets s old) = None \<Longrightarrow>
   \<forall>ev \<in> set evs. \<not> auth_on old ev \<Longrightarrow>
   old < next_sid (run om s evs) \<and> sock_cid (sockets (run om s evs) old) = None"
proof (induction evs arbitrary: s)
  case Nil
  then show ?case by simp
next
  case (Cons ev evs)
  from Cons.prems
  have "old < next_sid (snd (step om s ev)) \<and> sock_cid (sockets (snd (step om s ev)) old) = None"
    by (intro step_cid_null) simp_all
  with Cons.IH [of "snd (step om s ev)"] Cons.prems show ?case by simp
qed

lemma disconnect_null_cid:
  "sock_cid (sockets s old) = None \<Longrightarrow>
   step om s (Disconnect old reason t) = ([], socket_close old s)"
  by (simp add: step_def on_disconnect_def socket_close_def)

text \<open>
  C9. \<open>disconnectClient\<close> on a cid registered to the connection \<open>old\<close> notifies it,
  removes the entry, resets the socket's cid and then closes it: the two effects are the
  notification and the close, so the disconnect handler that the close runs had no
  effect. After any further events, none of them an authentication on the closed
  connection, a disconnect event of the transport for \<open>old\<close> has no effect at all, so
  the disconnect observer is not called, and it leaves \<open>connectionMap\<close> and
  \<open>roomMembers\<close> as they are. The same holds when the eviction is the one inside the
  authentication of another connection with that cid, whose directory entry therefore
  stays.
\<close>

theorem evicted_disconnect_is_noop:
  assumes "map_of (connectionMap s) c = Some old" and "old < next_sid s"
    and "\<forall>ev \<in> set evs. \<not> auth_on old ev"
  shows "fst (disconnectClient s c t1) = [Emit old ''server-disconnect'' JUndefined, Close old]
       \<and> sock_cid (sockets (snd (disconnectClient s c t1)) old) = None
       \<and> \<not> sock_connected (sockets (snd (disconnectClient s c t1)) old)
       \<and> map_of (connectionMap (snd (disconnectClient s c t1))) c = None
       \<and> roomMembers (snd (disconnectClient s c t1)) = roomMembers s
       \<and> step om (run om (snd (disconnectClient s c t1)) evs) (Disconnect old reason t) =
           ([], socket_close old (run om (snd (disconnectClient s c t1)) evs))
       \<and> connectionMap (socket_close old (run om (snd (disconnectClient s c t1)) evs)) =
           connectionMap (run om (snd (disconnectClient s c t1)) evs)
       \<and> roomMembers (socket_close old (run om (snd (disconnectClient s c t1)) evs)) =
           roomMembers (run om (snd (disconnectClient s c t1)) evs)
       \<and> (old \<noteq> i \<and> \<not> truthy (res_error result) \<and> res_cid result = c \<longrightarrow>
            map_of (connectionMap (snd (on_authentication s i result t0 ack))) c = Some i
          \<and> step om (run om (snd (on_authentication s i result t0 ack)) evs)
              (Disconnect old reason t) =
              ([], socket_close old (run om (snd (on_authentication s i result t0 ack)) evs)))"
proof -
  let ?s1 = "snd (disconnectClient s c t1)"
  have n1: "old < next_sid ?s1" using assms(2) by (simp add: disconnectClient_next_sid)
  have c1: "sock_cid (sockets ?s1 old) = None"
    using assms(1) by (simp add: disconnectClient_sock_cid)
  have "sock_cid (sockets (run om ?s1 evs) old) = None"
    using run_cid_null [OF n1 c1 assms(3)] by simp
  then have d1: "step om (run om ?s1 evs) (Disconnect old reason t) =
                   ([], socket_close old (run om ?s1 evs))"
    by (rule disconnect_null_cid)
  have e1: "fst (disconnectClient s c t1) = [Emit old ''server-disconnect'' JUndefined, Close old]"
        "\<not> sock_connected (sockets ?s1 old)"
    using assms(1) by (simp_all add: disconnectClient_evicts socket_close_def)
  have m1: "map_of (connectionMap ?s1) c = None"
    by (simp add: disconnectClient_connectionMap delete_conv')
  have a: "map_of (connectionMap (snd (on_authentication s i result t0 ack))) c = Some i
          \<and> step om (run om (snd (on_authentication s i result t0 ack)) evs)
              (Disconnect old reason t) =
              ([], socket_close old (run om (snd (on_authentication s i result t0 ack)) evs))"
    if h: "old \<noteq> i" "\<not> truthy (res_error result)" "res_cid result = c"
  proof -
    let ?s2 = "snd (on_authentication s i result t0 ack)"
    have n2: "old < next_sid ?s2" using assms(2) h by (simp add: on_authentication_ok)
    have c2: "sock_cid (sockets ?s2 old) = None"
      using assms(1) h by (simp add: on_authentication_sock_cid)
    have "sock_cid (sockets (run om ?s2 evs) old) = None"
      using run_cid_null [OF n2 c2 assms(3)] by simp
    then have "step om (run om ?s2 evs) (Disconnect old reason t) =
                 ([], socket_close old (run om ?s2 evs))"
      by (rule disconnect_null_cid)
    moreover have "map_of (connectionMap ?s2) c = Some i"
      using h by (simp add: on_authentication_ok update_conv')
    ultimately show ?thesis by simp
  qed
  show ?thesis
    using e1 c1 m1 d1 a by (simp add: socket_close_fields disconnectClient_roomMembers)
qed

theorem evicted_disconnect_is_noop_witness:
  "map_of (connectionMap alice_online) ''alice'' = Some 0 \<and> 0 < next_sid alice_online
   \<and> fst (disconnectClient alice_online ''alice'' ''t1'') =
       [Emit 0 ''server-disconnect'' JUndefined, Close 0]
   \<and> sock_cid (sockets (snd (disconnectClient alice_online ''alice'' ''t1'')) 0) = None
   \<and> fst (step route_onmessage
             (run route_onmessage (snd (disconnectClient alice_online ''alice'' ''t1'')) alice_again)
             (Disconnect 0 ''io server disconnect'' ''t2'')) = []
   \<and> connectionMap (snd (step route_onmessage
             (run route_onmessage (snd (disconnectClient alice_online ''alice'' ''t1'')) alice_again)
             (Disconnect 0 ''io server disconnect'' ''t2''))) = [(''alice'', 1)]
   \<and> roomMembers (snd (step route_onmessage
             (run route_onmessage (snd (disconnectClient alice_online ''alice'' ''t1'')) alice_again)
             (Disconnect 0 ''io server disconnect'' ''t2''))) = [(''r1'', [''alice''])]"
proof -
  have h1: "map_of (connectionMap alice_online) ''alice'' = Some 0"
    by (simp add: alice_online_maps)
  have h2: "0 < next_sid alice_online"
    by (simp add: alice_online_maps)
  have h3: "\<forall>ev \<in> set alice_again. \<not> auth_on 0 ev"
    by (simp add: alice_again_def)
  from evicted_disconnect_is_noop [OF h1 h2 h3, of "''t1''" route_onmessage
         "''io server disconnect''" "''t2''" 1 "auth_ok ''alice'' ''r1''" "''t1''" True] h1 h2
  show ?thesis
    by (simp add: alice_again_maps)
qed

end
